theory Spec2Isabelle
  imports Main "HOL-Library.Sublist"
begin

section \<open>Text, exceptions and the outside world\<close>

text \<open>
  A Python \<^verbatim>\<open>str\<close> is a sequence of Unicode code points. HOL's \<open>char\<close> has only 256
  values, so text is modelled as the list of its code points; \<open>ustr\<close> embeds a literal.
\<close>

type_synonym ustring = "nat list"

definition ustr :: "string \<Rightarrow> ustring" where
  "ustr s = map of_char s"

text \<open>
  The instances of \<^verbatim>\<open>Exception\<close> that the program can meet: a missing dictionary key,
  a reply that \<^verbatim>\<open>json.loads\<close> rejects, and whatever an external library raises
  (sounddevice, scipy, the model client, the operating system), kept with its message.
\<close>

datatype pyexc = KeyError ustring | JSONDecodeError | Raised ustring

text \<open>
  Calls that leave the process are recorded, in order, as events: an event is appended when the
  call is made, whether it then returns or raises. Lines printed to the console are recorded
  by the f-string that produced them.
\<close>

datatype event =
    InputStream_open nat nat
  | Stream_start
  | Stream_stop
  | Stream_close
  | Genai_configure ustring
  | Wav_write ustring nat nat
  | Upload_file ustring
  | Generate_content ustring
  | File_delete
  | Os_remove ustring

datatype line =
    Gemini_Config_Error pyexc
  | Translation_Error pyexc
  | Mic_Error pyexc
  | Recording_started
  | Recording_stopped

record world =
  trace :: "event list"
  console :: "line list"

definition emit :: "event \<Rightarrow> world \<Rightarrow> world" where
  "emit ev w = w\<lparr>trace := trace w @ [ev]\<rparr>"

definition print :: "line \<Rightarrow> world \<Rightarrow> world" where
  "print l w = w\<lparr>console := console w @ [l]\<rparr>"

section \<open>JSON values\<close>

text \<open>
  What \<^verbatim>\<open>json.loads\<close> returns and \<^verbatim>\<open>jsonify\<close> accepts. A \<^verbatim>\<open>dict\<close> is kept as
  the list of its items in insertion order. A \<^verbatim>\<open>float\<close> is kept as the numeral it was read
  from: its binary rounding is not modelled.
\<close>

datatype json =
    JNull
  | JBool bool
  | JInt int
  | JFloat ustring
  | JString ustring
  | JArray "json list"
  | JObject "(ustring \<times> json) list"

section \<open>AudioRecorder\<close>

text \<open>
  A frame is the block of samples one callback delivers (\<^verbatim>\<open>indata.copy()\<close>); the samples
  themselves are never inspected by the recorder, so their type is a parameter.
  \<^verbatim>\<open>np.concatenate(frames, axis=0)\<close> is \<open>concat\<close>, and \<^verbatim>\<open>len\<close> of the result its length.
\<close>

datatype stream = InputStream nat nat

record 'a AudioRecorder =
  recording :: bool
  audio_data :: "'a list list"
  stream :: "stream option"
  sample_rate :: nat

definition AudioRecorder_init :: "'a AudioRecorder" where
  "AudioRecorder_init =
     \<lparr>recording = False, audio_data = [], stream = None, sample_rate = 16000\<rparr>"

text \<open>
  What the capture device does when \<^verbatim>\<open>start\<close> asks for it: the constructor
  \<^verbatim>\<open>sd.InputStream(...)\<close> raises, or it returns and \<^verbatim>\<open>stream.start()\<close> raises, or
  both return.
\<close>

datatype device = Open_raises pyexc | Start_raises pyexc | Device_ok

definition start :: "device \<Rightarrow> 'a AudioRecorder \<times> world \<Rightarrow> 'a AudioRecorder \<times> world" where
  "start dev = (\<lambda>(self, w).
     let self = self\<lparr>recording := True\<rparr>;
         self = self\<lparr>audio_data := []\<rparr>;
         w = emit (InputStream_open 1 (sample_rate self)) w
     in case dev of
          Open_raises e \<Rightarrow>
            (self\<lparr>recording := False\<rparr>, print (Mic_Error e) w)
        | Start_raises e \<Rightarrow>
            (let self = self\<lparr>stream := Some (InputStream 1 (sample_rate self))\<rparr>;
                 w = emit Stream_start w
             in (self\<lparr>recording := False\<rparr>, print (Mic_Error e) w))
        | Device_ok \<Rightarrow>
            (let self = self\<lparr>stream := Some (InputStream 1 (sample_rate self))\<rparr>;
                 w = emit Stream_start w
             in (self, print Recording_started w)))"

text \<open>
  \<^verbatim>\<open>stream.stop()\<close> and \<^verbatim>\<open>stream.close()\<close> ignore the device's error codes (sounddevice's
  default \<^verbatim>\<open>ignore_errors=True\<close>), so they have no raising branch.
\<close>

definition stop :: "'a AudioRecorder \<times> world \<Rightarrow> 'a list \<times> 'a AudioRecorder \<times> world" where
  "stop = (\<lambda>(self, w).
     let self = self\<lparr>recording := False\<rparr>;
         w = (case stream self of
                Some s \<Rightarrow> print Recording_stopped (emit Stream_close (emit Stream_stop w))
              | None \<Rightarrow> w)
     in (if audio_data self \<noteq> [] then concat (audio_data self) else [], self, w))"

definition callback :: "'a AudioRecorder \<Rightarrow> 'a list \<Rightarrow> 'a AudioRecorder" where
  "callback self indata =
     (if recording self then self\<lparr>audio_data := audio_data self @ [indata]\<rparr> else self)"

section \<open>String methods\<close>

text \<open>
  \<^verbatim>\<open>sep.join(xs)\<close>, \<^verbatim>\<open>s.replace(old, new)\<close> (every non-overlapping occurrence, found
  from the left), \<^verbatim>\<open>old in s\<close>, and \<^verbatim>\<open>s.strip()\<close>, which removes the code points that
  \<^verbatim>\<open>str.isspace\<close> accepts from both ends.
\<close>

fun join :: "ustring \<Rightarrow> ustring list \<Rightarrow> ustring" where
  "join sep [] = []"
| "join sep [x] = x"
| "join sep (x # y # ys) = x @ sep @ join sep (y # ys)"

function replace :: "ustring \<Rightarrow> ustring \<Rightarrow> ustring \<Rightarrow> ustring" where
  "replace old new s =
     (if old = [] then new @ concat (map (\<lambda>c. c # new) s)
      else case s of
        [] \<Rightarrow> []
      | c # cs \<Rightarrow>
          if prefix old s then new @ replace old new (drop (length old) s)
          else c # replace old new cs)"
  by pat_completeness auto
termination
  by (relation "measure (\<lambda>(old, new, s). length s)") auto

fun contains :: "ustring \<Rightarrow> ustring \<Rightarrow> bool" where
  "contains old [] = (old = [])"
| "contains old (c # cs) = (prefix old (c # cs) \<or> contains old cs)"

definition isspace :: "nat \<Rightarrow> bool" where
  "isspace c \<longleftrightarrow>
     (0x09 \<le> c \<and> c \<le> 0x0D) \<or> (0x1C \<le> c \<and> c \<le> 0x20) \<or> c = 0x85 \<or> c = 0xA0 \<or>
     c = 0x1680 \<or> (0x2000 \<le> c \<and> c \<le> 0x200A) \<or> c = 0x2028 \<or> c = 0x2029 \<or>
     c = 0x202F \<or> c = 0x205F \<or> c = 0x3000"

definition strip :: "ustring \<Rightarrow> ustring" where
  "strip s = rev (dropWhile isspace (rev (dropWhile isspace s)))"

section \<open>json.loads\<close>

text \<open>
  The standard library's decoder, in two passes over the text. The first cuts it into tokens:
  punctuation, strings with their escapes decoded, and maximal runs of the characters that
  numbers and the literals are written with. The second reads the tokens with a stack of the
  arrays and objects still open. Every rejection is the one exception \<open>JSONDecodeError\<close>.
  As in Python, \<^verbatim>\<open>NaN\<close>, \<^verbatim>\<open>Infinity\<close> and \<^verbatim>\<open>-Infinity\<close> are accepted, control
  characters inside strings are refused, two adjacent \<^verbatim>\<open>\u\<close> escapes forming a surrogate
  pair become one code point, and a repeated key keeps its first place and its last value.
  The interpreter's recursion limit is not modelled.
\<close>

datatype token =
    T_lbrace | T_rbrace | T_lbracket | T_rbracket | T_colon | T_comma
  | T_string ustring
  | T_bare ustring

datatype lexmode =
    Between
  | Bare ustring
  | Str ustring bool
  | Esc ustring bool
  | Hex ustring bool "nat list"
  | Lex_error

definition json_space :: "nat \<Rightarrow> bool" where
  "json_space c \<longleftrightarrow> c = 0x20 \<or> c = 0x09 \<or> c = 0x0A \<or> c = 0x0D"

definition is_digit :: "nat \<Rightarrow> bool" where
  "is_digit c \<longleftrightarrow> 0x30 \<le> c \<and> c \<le> 0x39"

definition bare_char :: "nat \<Rightarrow> bool" where
  "bare_char c \<longleftrightarrow>
     is_digit c \<or> (0x41 \<le> c \<and> c \<le> 0x5A) \<or> (0x61 \<le> c \<and> c \<le> 0x7A) \<or>
     c = 0x2D \<or> c = 0x2B \<or> c = 0x2E"

definition hexval :: "nat \<Rightarrow> nat option" where
  "hexval c =
     (if is_digit c then Some (c - 0x30)
      else if 0x41 \<le> c \<and> c \<le> 0x46 then Some (c - 0x41 + 10)
      else if 0x61 \<le> c \<and> c \<le> 0x66 then Some (c - 0x61 + 10)
      else None)"

text \<open>The one-letter escapes: \<^verbatim>\<open>\" \\ \/ \b \f \n \r \t\<close>.\<close>

definition simple_escape :: "nat \<Rightarrow> nat option" where
  "simple_escape c =
     (if c = 0x22 then Some 0x22
      else if c = 0x5C then Some 0x5C
      else if c = 0x2F then Some 0x2F
      else if c = 0x62 then Some 0x08
      else if c = 0x66 then Some 0x0C
      else if c = 0x6E then Some 0x0A
      else if c = 0x72 then Some 0x0D
      else if c = 0x74 then Some 0x09
      else None)"

definition high_surrogate :: "nat \<Rightarrow> bool" where
  "high_surrogate u \<longleftrightarrow> 0xD800 \<le> u \<and> u \<le> 0xDBFF"

definition low_surrogate :: "nat \<Rightarrow> bool" where
  "low_surrogate u \<longleftrightarrow> 0xDC00 \<le> u \<and> u \<le> 0xDFFF"

text \<open>
  A decoded \<^verbatim>\<open>\uXXXX\<close> joins the string; the flag says that the string now ends with a
  high surrogate that an escape wrote, which a low surrogate from the very next escape completes.
\<close>

definition add_escaped :: "ustring \<Rightarrow> bool \<Rightarrow> nat \<Rightarrow> lexmode" where
  "add_escaped s hi u =
     (if hi \<and> s \<noteq> [] \<and> low_surrogate u
      then Str (butlast s @ [0x10000 + (last s - 0xD800) * 0x400 + (u - 0xDC00)]) False
      else Str (s @ [u]) (high_surrogate u))"

definition lex_between :: "token list \<Rightarrow> nat \<Rightarrow> token list \<times> lexmode" where
  "lex_between toks c =
     (if json_space c then (toks, Between)
      else if c = 0x7B then (toks @ [T_lbrace], Between)
      else if c = 0x7D then (toks @ [T_rbrace], Between)
      else if c = 0x5B then (toks @ [T_lbracket], Between)
      else if c = 0x5D then (toks @ [T_rbracket], Between)
      else if c = 0x3A then (toks @ [T_colon], Between)
      else if c = 0x2C then (toks @ [T_comma], Between)
      else if c = 0x22 then (toks, Str [] False)
      else if bare_char c then (toks, Bare [c])
      else (toks, Lex_error))"

fun lex_step :: "token list \<times> lexmode \<Rightarrow> nat \<Rightarrow> token list \<times> lexmode" where
  "lex_step (toks, Between) c = lex_between toks c"
| "lex_step (toks, Bare b) c =
     (if bare_char c then (toks, Bare (b @ [c])) else lex_between (toks @ [T_bare b]) c)"
| "lex_step (toks, Str s hi) c =
     (if c = 0x22 then (toks @ [T_string s], Between)
      else if c = 0x5C then (toks, Esc s hi)
      else if c < 0x20 then (toks, Lex_error)
      else (toks, Str (s @ [c]) False))"
| "lex_step (toks, Esc s hi) c =
     (if c = 0x75 then (toks, Hex s hi [])
      else case simple_escape c of
             Some d \<Rightarrow> (toks, Str (s @ [d]) False)
           | None \<Rightarrow> (toks, Lex_error))"
| "lex_step (toks, Hex s hi ds) c =
     (case hexval c of
        None \<Rightarrow> (toks, Lex_error)
      | Some d \<Rightarrow>
          if length ds < 3 then (toks, Hex s hi (ds @ [d]))
          else (toks, add_escaped s hi (foldl (\<lambda>n h. 16 * n + h) 0 (ds @ [d]))))"
| "lex_step (toks, Lex_error) c = (toks, Lex_error)"

fun lex_finish :: "token list \<times> lexmode \<Rightarrow> token list option" where
  "lex_finish (toks, Between) = Some toks"
| "lex_finish (toks, Bare b) = Some (toks @ [T_bare b])"
| "lex_finish (toks, m) = None"

definition tokens :: "ustring \<Rightarrow> token list option" where
  "tokens s = lex_finish (foldl lex_step ([], Between) s)"

text \<open>
  A run is a number when all of it matches
  \<^verbatim>\<open>-?(0|[1-9][0-9]*)(\.[0-9]+)?([eE][-+]?[0-9]+)?\<close>: an \<^verbatim>\<open>int\<close> without fraction and
  exponent, a \<^verbatim>\<open>float\<close> otherwise.
\<close>

definition decimal :: "ustring \<Rightarrow> int" where
  "decimal ds = foldl (\<lambda>n d. 10 * n + int (d - 0x30)) 0 ds"

definition exponent_ok :: "ustring \<Rightarrow> bool" where
  "exponent_ok r =
     (case r of
        [] \<Rightarrow> True
      | c # r1 \<Rightarrow>
          (c = 0x65 \<or> c = 0x45) \<and>
          (let r2 = (case r1 of [] \<Rightarrow> [] | d # r3 \<Rightarrow> if d = 0x2D \<or> d = 0x2B then r3 else r1)
           in r2 \<noteq> [] \<and> list_all is_digit r2))"

definition fraction_ok :: "ustring \<Rightarrow> bool" where
  "fraction_ok r =
     (case r of
        [] \<Rightarrow> True
      | c # r1 \<Rightarrow>
          if c = 0x2E then takeWhile is_digit r1 \<noteq> [] \<and> exponent_ok (dropWhile is_digit r1)
          else exponent_ok r)"

definition scan_number :: "ustring \<Rightarrow> json option" where
  "scan_number b =
     (let (neg, r) = (case b of
                        [] \<Rightarrow> (False, [])
                      | c # cs \<Rightarrow> if c = 0x2D then (True, cs) else (False, b));
          ip = takeWhile is_digit r;
          rest = dropWhile is_digit r
      in case ip of
           [] \<Rightarrow> None
         | d # ds \<Rightarrow>
             if (d = 0x30 \<and> ds \<noteq> []) \<or> \<not> fraction_ok rest then None
             else if rest = [] then Some (JInt (if neg then - decimal ip else decimal ip))
             else Some (JFloat b))"

definition classify :: "ustring \<Rightarrow> json option" where
  "classify b =
     (if b = ustr ''null'' then Some JNull
      else if b = ustr ''true'' then Some (JBool True)
      else if b = ustr ''false'' then Some (JBool False)
      else if b = ustr ''NaN'' \<or> b = ustr ''Infinity'' \<or> b = ustr ''-Infinity''
        then Some (JFloat b)
      else scan_number b)"

text \<open>\<^verbatim>\<open>d[k] = v\<close> on the items of a dict.\<close>

fun setitem :: "ustring \<Rightarrow> json \<Rightarrow> (ustring \<times> json) list \<Rightarrow> (ustring \<times> json) list" where
  "setitem k v [] = [(k, v)]"
| "setitem k v ((k', v') # items) =
     (if k' = k then (k, v) # items else (k', v') # setitem k v items)"

datatype frame =
    F_array "json list"
  | F_object "(ustring \<times> json) list"
  | F_key ustring

datatype phase =
    Want_value
  | Want_value_or_close
  | Want_key
  | Want_key_or_close
  | Want_colon
  | After_value
  | Finished json
  | Parse_error

text \<open>A complete value goes to whatever is open: nothing, an array, or a key of an object.\<close>

fun deliver :: "json \<Rightarrow> frame list \<Rightarrow> frame list \<times> phase" where
  "deliver v [] = ([], Finished v)"
| "deliver v (F_array items # st) = (F_array (items @ [v]) # st, After_value)"
| "deliver v (F_key k # F_object items # st) = (F_object (setitem k v items) # st, After_value)"
| "deliver v st = (st, Parse_error)"

fun value_token :: "frame list \<Rightarrow> token \<Rightarrow> frame list \<times> phase" where
  "value_token st (T_string s) = deliver (JString s) st"
| "value_token st (T_bare b) =
     (case classify b of Some v \<Rightarrow> deliver v st | None \<Rightarrow> (st, Parse_error))"
| "value_token st T_lbracket = (F_array [] # st, Want_value_or_close)"
| "value_token st T_lbrace = (F_object [] # st, Want_key_or_close)"
| "value_token st t = (st, Parse_error)"

fun key_token :: "frame list \<Rightarrow> token \<Rightarrow> frame list \<times> phase" where
  "key_token st (T_string k) = (F_key k # st, Want_colon)"
| "key_token st t = (st, Parse_error)"

fun after_value :: "frame list \<Rightarrow> token \<Rightarrow> frame list \<times> phase" where
  "after_value (F_array items # st) T_comma = (F_array items # st, Want_value)"
| "after_value (F_object items # st) T_comma = (F_object items # st, Want_key)"
| "after_value (F_array items # st) T_rbracket = deliver (JArray items) st"
| "after_value (F_object items # st) T_rbrace = deliver (JObject items) st"
| "after_value st t = (st, Parse_error)"

fun parse_step :: "frame list \<times> phase \<Rightarrow> token \<Rightarrow> frame list \<times> phase" where
  "parse_step (st, Want_value) t = value_token st t"
| "parse_step (st, Want_value_or_close) t =
     (if t = T_rbracket then after_value st t else value_token st t)"
| "parse_step (st, Want_key) t = key_token st t"
| "parse_step (st, Want_key_or_close) t =
     (if t = T_rbrace then after_value st t else key_token st t)"
| "parse_step (st, Want_colon) t = (if t = T_colon then (st, Want_value) else (st, Parse_error))"
| "parse_step (st, After_value) t = after_value st t"
| "parse_step (st, Finished v) t = (st, Parse_error)"
| "parse_step (st, Parse_error) t = (st, Parse_error)"

definition parse_tokens :: "token list \<Rightarrow> pyexc + json" where
  "parse_tokens toks =
     (case foldl parse_step ([], Want_value) toks of
        (st, Finished v) \<Rightarrow> Inr v
      | _ \<Rightarrow> Inl JSONDecodeError)"

definition json_loads :: "ustring \<Rightarrow> pyexc + json" where
  "json_loads s =
     (case tokens s of
        None \<Rightarrow> Inl JSONDecodeError
      | Some toks \<Rightarrow> parse_tokens toks)"

section \<open>Configuration and the prompt\<close>

text \<open>
  The configuration is read with \<^verbatim>\<open>config.get(key, default)\<close>, so each of its four keys may
  be absent (\<open>None\<close>). A dictionary entry is a dict from which the keys \<^verbatim>\<open>'balti'\<close> and
  \<^verbatim>\<open>'english'\<close> are read; reading a missing one raises \<^verbatim>\<open>KeyError\<close>. The values are
  taken to be of the types the configuration page writes: text, and lists of text.
\<close>

record ConfigSnapshot =
  get_dictionary :: "(ustring \<rightharpoonup> ustring) list option"
  get_tone :: "ustring option"
  get_context :: "ustring option"
  get_forbiddenWords :: "ustring list option"

definition default_config :: ConfigSnapshot where
  "default_config =
     \<lparr>get_dictionary = Some [], get_tone = Some (ustr ''Casual''),
      get_context = Some [], get_forbiddenWords = Some []\<rparr>"

text \<open>The f-string \<^verbatim>\<open>f"- {d['balti']} -> {d['english']}"\<close>.\<close>

definition entry_line :: "(ustring \<rightharpoonup> ustring) \<Rightarrow> pyexc + ustring" where
  "entry_line d =
     (case d (ustr ''balti'') of
        None \<Rightarrow> Inl (KeyError (ustr ''balti''))
      | Some b \<Rightarrow>
          (case d (ustr ''english'') of
             None \<Rightarrow> Inl (KeyError (ustr ''english''))
           | Some e \<Rightarrow> Inr (ustr ''- '' @ b @ ustr '' -> '' @ e)))"

text \<open>The list comprehension: the first entry that raises ends it.\<close>

fun entry_lines :: "(ustring \<rightharpoonup> ustring) list \<Rightarrow> pyexc + ustring list" where
  "entry_lines [] = Inr []"
| "entry_lines (d # ds) =
     (case entry_line d of
        Inl e \<Rightarrow> Inl e
      | Inr l \<Rightarrow> (case entry_lines ds of Inl e \<Rightarrow> Inl e | Inr ls \<Rightarrow> Inr (l # ls)))"

definition dict_str :: "ConfigSnapshot \<Rightarrow> pyexc + ustring" where
  "dict_str config =
     (case entry_lines (case get_dictionary config of None \<Rightarrow> [] | Some ds \<Rightarrow> ds) of
        Inl e \<Rightarrow> Inl e
      | Inr ls \<Rightarrow> Inr (join (ustr ''\<newline>'') ls))"

definition forbidden_str :: "ConfigSnapshot \<Rightarrow> ustring" where
  "forbidden_str config =
     join (ustr '', '') (case get_forbiddenWords config of None \<Rightarrow> [] | Some ws \<Rightarrow> ws)"

text \<open>
  The prompt, as the triple-quoted f-string spells it: every line of the source, the blank
  ones too, starts with the twelve spaces of its indentation.
\<close>

definition indent :: ustring where
  "indent = replicate 12 0x20"

definition prompt_head :: "ConfigSnapshot \<Rightarrow> ustring" where
  "prompt_head config =
     ustr ''\<newline>'' @
     indent @ ustr ''You are an expert Balti-to-English translator.\<newline>'' @
     indent @ ustr ''\<newline>'' @
     indent @ ustr ''CONFIGURATION:\<newline>'' @
     indent @ ustr ''- Context: '' @
       (case get_context config of None \<Rightarrow> ustr ''General'' | Some c \<Rightarrow> c) @ ustr ''\<newline>'' @
     indent @ ustr ''- Tone: '' @
       (case get_tone config of None \<Rightarrow> ustr ''Casual'' | Some t \<Rightarrow> t) @ ustr ''\<newline>'' @
     indent @ ustr ''- Blocked Words: '' @ forbidden_str config @ ustr ''\<newline>'' @
     indent @ ustr ''\<newline>'' @
     indent @ ustr ''CUSTOM DICTIONARY:\<newline>'' @
     indent"

definition prompt_tail :: ustring where
  \<open>prompt_tail =
     ustr ''\<newline>'' @
     indent @ ustr ''\<newline>'' @
     indent @ ustr ''TASK:\<newline>'' @
     indent @ ustr ''1. Transcribe the Balti speech.\<newline>'' @
     indent @ ustr ''2. Translate it to English.\<newline>'' @
     indent @ ustr ''\<newline>'' @
     indent @ ustr ''RESPONSE FORMAT (JSON ONLY):\<newline>'' @
     indent @ ustr ''{ "balti": "...", "english": "..." }\<newline>'' @
     indent\<close>

definition prompt :: "ConfigSnapshot \<Rightarrow> pyexc + ustring" where
  "prompt config =
     (case dict_str config of
        Inl e \<Rightarrow> Inl e
      | Inr ds \<Rightarrow> Inr (prompt_head config @ ds @ prompt_tail))"

text \<open>The lines of a text: its pieces between line feeds.\<close>

fun split_lines :: "ustring \<Rightarrow> ustring list" where
  "split_lines [] = [[]]"
| "split_lines (c # cs) =
     (if c = 0x0A then [] # split_lines cs
      else case split_lines cs of
             [] \<Rightarrow> [[c]]
           | l # ls \<Rightarrow> (c # l) # ls)"

section \<open>GeminiService\<close>

datatype genmodel = GenerativeModel ustring

record GeminiService =
  model :: "genmodel option"

text \<open>
  \<^verbatim>\<open>API_KEY = os.getenv("VITE_GEMINI_API_KEY") or os.getenv("GEMINI_API_KEY")\<close>: the first
  if it is set and not empty, else the second.
\<close>

definition API_KEY :: "ustring option \<Rightarrow> ustring option \<Rightarrow> ustring option" where
  "API_KEY vite_key gemini_key =
     (case vite_key of
        None \<Rightarrow> gemini_key
      | Some k \<Rightarrow> if k = [] then gemini_key else Some k)"

text \<open>What \<^verbatim>\<open>genai.configure\<close> and the \<^verbatim>\<open>GenerativeModel\<close> constructor do.\<close>

datatype configure = Configure_raises pyexc | Configure_ok

definition GeminiService_init ::
  "configure \<Rightarrow> ustring option \<Rightarrow> world \<Rightarrow> GeminiService \<times> world" where
  "GeminiService_init conf api_key w =
     (case api_key of
        None \<Rightarrow> (\<lparr>model = None\<rparr>, w)
      | Some k \<Rightarrow>
          if k = [] then (\<lparr>model = None\<rparr>, w)
          else
            let w = emit (Genai_configure k) w
            in case conf of
                 Configure_ok \<Rightarrow>
                   (\<lparr>model = Some (GenerativeModel (ustr ''gemini-2.5-flash-preview-09-2025''))\<rparr>,
                    w)
               | Configure_raises e \<Rightarrow> (\<lparr>model = None\<rparr>, print (Gemini_Config_Error e) w))"

text \<open>
  What the calls that \<^verbatim>\<open>translate\<close> makes outside the process do on one run: each either
  returns or raises. A reply's \<^verbatim>\<open>text\<close> is a property that may itself raise.
\<close>

datatype response = Response "pyexc + ustring"

record external =
  wav_write :: "pyexc option"
  upload_file :: "pyexc option"
  generate_content :: "pyexc + response"
  file_delete :: "pyexc option"
  os_remove :: "pyexc option"

definition filename :: ustring where
  "filename = ustr ''temp_audio.wav''"

definition error_result :: "string \<Rightarrow> json" where
  "error_result reason =
     JObject [(ustr ''balti'', JString (ustr ''Error'')), (ustr ''english'', JString (ustr reason))]"

text \<open>
  Lines 96 to 100: \<^verbatim>\<open>audio_file.delete()\<close> and then \<^verbatim>\<open>os.remove(filename)\<close> in one
  \<^verbatim>\<open>try\<close> whose handler passes, so an exception from the first skips the second.
\<close>

definition cleanup :: "external \<Rightarrow> world \<Rightarrow> world" where
  "cleanup x w =
     (let w = emit File_delete w
      in case file_delete x of
           Some e \<Rightarrow> w
         | None \<Rightarrow> emit (Os_remove filename) w)"

definition strip_fences :: "ustring \<Rightarrow> ustring" where
  "strip_fences t = strip (replace (ustr ''```'') [] (replace (ustr ''```json'') [] t))"

text \<open>
  The body of the \<^verbatim>\<open>try\<close> of \<^verbatim>\<open>translate\<close> (lines 64 to 103): \<open>Inl e\<close> when a
  statement raises \<open>e\<close>, which ends the body there. The conversion to 16-bit samples is array
  arithmetic that does not raise; the samples written are not part of the model.
\<close>

definition translate_body ::
  "'a list \<Rightarrow> nat \<Rightarrow> ConfigSnapshot \<Rightarrow> external \<Rightarrow> world \<Rightarrow> (pyexc + json) \<times> world" where
  "translate_body audio rate config x w =
     (let w = emit (Wav_write filename rate (length audio)) w in
      case wav_write x of
        Some e \<Rightarrow> (Inl e, w)
      | None \<Rightarrow>
     (let w = emit (Upload_file filename) w in
      case upload_file x of
        Some e \<Rightarrow> (Inl e, w)
      | None \<Rightarrow>
     (case prompt config of
        Inl e \<Rightarrow> (Inl e, w)
      | Inr p \<Rightarrow>
     (let w = emit (Generate_content p) w in
      case generate_content x of
        Inl e \<Rightarrow> (Inl e, w)
      | Inr (Response text) \<Rightarrow>
     (let w = cleanup x w in
      case text of
        Inl e \<Rightarrow> (Inl e, w)
      | Inr t \<Rightarrow> (json_loads (strip_fences t), w))))))"

text \<open>
  \<^verbatim>\<open>translate\<close>: the guard on the model, then the body under
  \<^verbatim>\<open>except Exception\<close>. The result is \<open>Inr\<close> the value returned, \<open>Inl\<close> an exception
  that leaves the method.
\<close>

definition translate ::
  "GeminiService \<Rightarrow> 'a list \<Rightarrow> nat \<Rightarrow> ConfigSnapshot \<Rightarrow> external \<Rightarrow> world
     \<Rightarrow> (pyexc + json) \<times> world" where
  "translate self audio rate config x w =
     (case model self of
        None \<Rightarrow> (Inr (error_result ''API Key Missing''), w)
      | Some m \<Rightarrow>
          (case translate_body audio rate config x w of
             (Inr v, w) \<Rightarrow> (Inr v, w)
           | (Inl e, w) \<Rightarrow>
               (Inr (error_result ''Translation Failed''), print (Translation_Error e) w)))"

section \<open>The record endpoint\<close>

text \<open>
  The process-wide objects \<^verbatim>\<open>recorder\<close>, \<^verbatim>\<open>gemini\<close> and \<^verbatim>\<open>config\<close>, and the view
  \<^verbatim>\<open>handle_record\<close>. The request body is a JSON object, read with
  \<^verbatim>\<open>data.get('action')\<close>. The view returns \<open>Some\<close> of what it hands to \<^verbatim>\<open>jsonify\<close>,
  or \<open>None\<close> when it reaches its end without a \<^verbatim>\<open>return\<close>.
\<close>

record 'a app =
  recorder :: "'a AudioRecorder"
  gemini :: GeminiService
  config :: ConfigSnapshot

definition handle_record ::
  "(ustring \<rightharpoonup> json) \<Rightarrow> device \<Rightarrow> external \<Rightarrow> 'a app \<times> world
     \<Rightarrow> (pyexc + json option) \<times> 'a app \<times> world" where
  "handle_record data dev x = (\<lambda>(a, w).
     let action = data (ustr ''action'') in
     if action = Some (JString (ustr ''start'')) then
       (let (r, w) = start dev (recorder a, w)
        in (Inr (Some (JObject [(ustr ''status'', JString (ustr ''started''))])),
            a\<lparr>recorder := r\<rparr>, w))
     else if action = Some (JString (ustr ''stop'')) then
       (let (audio, r, w) = stop (recorder a, w);
            a = a\<lparr>recorder := r\<rparr>
        in if length audio = 0
           then (Inr (Some (error_result ''No audio captured'')), a, w)
           else case translate (gemini a) audio 16000 (config a) x w of
                  (Inl e, w) \<Rightarrow> (Inl e, a, w)
                | (Inr result, w) \<Rightarrow> (Inr (Some result), a, w))
     else (Inr None, a, w))"

section \<open>Concrete runs\<close>

text \<open>Inputs on which the definitions above are evaluated.\<close>

definition idle_world :: world where
  "idle_world = \<lparr>trace = [], console = []\<rparr>"

definition configured :: GeminiService where
  "configured = \<lparr>model = Some (GenerativeModel (ustr ''gemini-2.5-flash-preview-09-2025''))\<rparr>"

definition replies :: "ustring \<Rightarrow> external" where
  "replies t =
     \<lparr>wav_write = None, upload_file = None, generate_content = Inr (Response (Inr t)),
      file_delete = None, os_remove = None\<rparr>"

definition model_fails :: external where
  "model_fails =
     \<lparr>wav_write = None, upload_file = None, generate_content = Inl (Raised (ustr ''503'')),
      file_delete = None, os_remove = None\<rparr>"

definition fresh_app :: "nat app" where
  "fresh_app = \<lparr>recorder = AudioRecorder_init, gemini = configured, config = default_config\<rparr>"

definition only_balti :: ustring where
  \<open>only_balti = ustr ''{"balti": "kho"}''\<close>



definition stop_request :: "ustring \<rightharpoonup> json" where
  "stop_request = [ustr ''action'' \<mapsto> JString (ustr ''stop'')]"



text \<open>The calls that only \<^verbatim>\<open>translate\<close> makes, as the trace holds them.\<close>

definition calls_of_translate :: "world \<Rightarrow> event list" where
  "calls_of_translate w =
     filter (\<lambda>ev. case ev of
                Wav_write f r n \<Rightarrow> True
              | Upload_file f \<Rightarrow> True
              | Generate_content p \<Rightarrow> True
              | File_delete \<Rightarrow> True
              | Os_remove f \<Rightarrow> True
              | _ \<Rightarrow> False) (trace w)"

text \<open>
  A reply in a markdown code fence: the opening marker, with or without the language tag, a
  line feed, the payload, a line feed, the closing marker.
\<close>

definition fence :: ustring where
  "fence = ustr ''```''"

definition fenced :: "ustring \<Rightarrow> ustring \<Rightarrow> ustring" where
  "fenced tag j = fence @ tag @ ustr ''\<newline>'' @ j @ ustr ''\<newline>'' @ fence"

definition two_fields :: ustring where
  \<open>two_fields = ustr ''{"balti": "kho", "english": "this"}''\<close>

definition backticks_json :: ustring where
  \<open>backticks_json = ustr ''{"balti": "```", "english": "code"}''\<close>

definition newline_entry :: ConfigSnapshot where
  "newline_entry =
     \<lparr>get_dictionary =
        Some [[ustr ''balti'' \<mapsto> ustr ''a\<newline>b'', ustr ''english'' \<mapsto> ustr ''c'']],
      get_tone = None, get_context = None, get_forbiddenWords = None\<rparr>"

definition two_entries :: ConfigSnapshot where
  "two_entries =
     \<lparr>get_dictionary =
        Some [[ustr ''balti'' \<mapsto> ustr ''kho'', ustr ''english'' \<mapsto> ustr ''this''],
              [ustr ''balti'' \<mapsto> ustr ''chu'', ustr ''english'' \<mapsto> ustr ''water'']],
      get_tone = None, get_context = None, get_forbiddenWords = None\<rparr>"

text \<open>
  An entry as the specification renders it, \<^verbatim>\<open>- {source} -> {target}\<close>, and the entries
  that have both terms with no line feed in either.
\<close>

definition formatted :: "(ustring \<rightharpoonup> ustring) \<Rightarrow> ustring" where
  "formatted d =
     (case (d (ustr ''balti''), d (ustr ''english'')) of
        (Some b, Some e) \<Rightarrow> ustr ''- '' @ b @ ustr '' -> '' @ e
      | _ \<Rightarrow> [])"

definition single_line :: "(ustring \<rightharpoonup> ustring) \<Rightarrow> bool" where
  "single_line d =
     (case (d (ustr ''balti''), d (ustr ''english'')) of
        (Some b, Some e) \<Rightarrow> 0x0A \<notin> set b \<and> 0x0A \<notin> set e
      | _ \<Rightarrow> False)"


section \<open>Properties of the recorder\<close>

lemma callback_frames:
  "recording self \<Longrightarrow>
     recording (foldl callback self fs) \<and>
     audio_data (foldl callback self fs) = audio_data self @ fs"
proof (induction fs arbitrary: self)
  case Nil
  then show ?case by simp
next
  case (Cons f fs)
  have "recording (callback self f)" "audio_data (callback self f) = audio_data self @ [f]"
    using Cons.prems by (simp_all add: callback_def)
  with Cons.IH [of "callback self f"] show ?case by simp
qed

lemma start_ok:
  "recording (fst (start Device_ok (self, w)))"
  "audio_data (fst (start Device_ok (self, w))) = []"
  by (simp_all add: start_def Let_def)

lemma stop_audio: "fst (stop (self, w)) = concat (audio_data self)"
  by (simp add: stop_def Let_def)

text \<open>
  C6. After a start that opened the device, the frames \<open>fs\<close> the callback delivers, in that
  order, are what \<open>stop\<close> returns: their concatenation in delivery order, whose length is the
  sum of the frame sizes.
\<close>

theorem stop_returns_delivered_frames:
  "fst (stop (foldl callback (fst (start Device_ok (self, w))) fs, w')) = concat fs \<and>
   length (fst (stop (foldl callback (fst (start Device_ok (self, w))) fs, w')))
     = sum_list (map length fs)"
proof -
  let ?r = "fst (start Device_ok (self, w))"
  have "audio_data (foldl callback ?r fs) = fs"
    using callback_frames [of ?r fs] start_ok [of self w] by simp
  then show ?thesis
    by (simp add: stop_audio length_concat)
qed

text \<open>
  C4, as the specification states it, fails: a session that recorded one frame and was stopped
  is Idle, yet stopping it again returns that frame once more, not an empty sample.
\<close>

theorem second_stop_returns_audio_again:
  "fst (stop (snd (stop (callback (fst (start Device_ok (AudioRecorder_init, idle_world))) [7::nat],
          idle_world)))) = [7] \<and>
   \<not> recording (fst (snd (stop (callback (fst (start Device_ok (AudioRecorder_init, idle_world)))
          [7::nat], idle_world))))"
  by (simp add: stop_def start_def callback_def AudioRecorder_init_def Let_def)

text \<open>
  C4, amended. Stopping an Idle session leaves the session as it is and returns the
  concatenation of the frames it still holds, so a second stop returns what the first did. The
  result is empty when no samples are held, as in a session that never recorded.
\<close>

theorem stop_when_idle:
  assumes "\<not> recording self"
  shows "fst (stop (self, w)) = concat (audio_data self) \<and>
         fst (snd (stop (self, w))) = self \<and>
         fst (stop (snd (stop (self, w)))) = fst (stop (self, w))"
  using assms by (simp add: stop_def Let_def)

theorem stop_when_idle_witness:
  "\<not> recording (AudioRecorder_init :: nat AudioRecorder) \<and>
   fst (stop (AudioRecorder_init :: nat AudioRecorder, idle_world)) = [] \<and>
   fst (snd (stop (AudioRecorder_init :: nat AudioRecorder, idle_world))) = AudioRecorder_init"
  using stop_when_idle [of "AudioRecorder_init :: nat AudioRecorder" idle_world]
  by (simp add: AudioRecorder_init_def)

section \<open>Properties of translate\<close>




lemma prompt_default: "prompt default_config = Inr (prompt_head default_config @ prompt_tail)"
  by (simp add: prompt_def dict_str_def default_config_def)

lemma translate_body_reply:
  assumes "wav_write x = None" "upload_file x = None" "prompt cfg = Inr p"
    "generate_content x = Inr (Response (Inr t))"
  shows "fst (translate_body audio rate cfg x w) = json_loads (strip_fences t)"
  using assms by (simp add: translate_body_def Let_def)





text \<open>
  C2. The code at a run where \<^verbatim>\<open>generate_content\<close> raises: the temporary file was written
  and uploaded, the result is "Translation Failed", and neither \<^verbatim>\<open>audio_file.delete()\<close> nor
  \<^verbatim>\<open>os.remove\<close> was called before \<open>translate\<close> returned.
\<close>

theorem translate_leaves_artifacts_when_model_raises:
  "fst (translate configured [0::nat] 16000 default_config model_fails idle_world)
     = Inr (error_result ''Translation Failed'') \<and>
   calls_of_translate (snd (translate configured [0::nat] 16000 default_config model_fails idle_world))
     = [Wav_write filename 16000 1, Upload_file filename,
        Generate_content (prompt_head default_config @ prompt_tail)]"
  by (simp add: translate_def translate_body_def configured_def model_fails_def prompt_default
      Let_def emit_def print_def idle_world_def calls_of_translate_def)

text \<open>
  C8. A service built without an API key (none, or an empty one) has no model, and its
  \<open>translate\<close> returns the "API Key Missing" result with the world as it found it: no file is
  written, nothing is uploaded, no call is made.
\<close>

theorem translate_without_key:
  assumes "api_key = None \<or> api_key = Some []"
  shows "model (fst (GeminiService_init conf api_key w0)) = None \<and>
         translate (fst (GeminiService_init conf api_key w0)) audio rate cfg x w
           = (Inr (error_result ''API Key Missing''), w)"
  using assms by (auto simp: GeminiService_init_def translate_def)

theorem translate_without_key_witness:
  "(API_KEY None (Some []) = None \<or> API_KEY None (Some []) = Some []) \<and>
   translate (fst (GeminiService_init Configure_ok (API_KEY None (Some [])) idle_world))
       [0::nat] 16000 default_config (replies only_balti) idle_world
     = (Inr (error_result ''API Key Missing''), idle_world)"
  using translate_without_key [of "API_KEY None (Some [])" Configure_ok idle_world
      "[0::nat]" 16000 default_config "replies only_balti" idle_world]
  by (simp add: API_KEY_def)

section \<open>Fence stripping and the decoder\<close>

lemma fence_codes: "fence = [96, 96, 96]" "ustr ''```'' = [96, 96, 96]"
  "ustr ''```json'' = [96, 96, 96, 106, 115, 111, 110]" "ustr ''\<newline>'' = [10]"
  "ustr ''json'' = [106, 115, 111, 110]"
  by (simp_all add: fence_def ustr_def)

declare replace.simps [simp del]

lemma replace_Nil: "old \<noteq> [] \<Longrightarrow> replace old new [] = []"
  by (simp add: replace.simps)

lemma replace_match:
  "old \<noteq> [] \<Longrightarrow> prefix old (c # cs) \<Longrightarrow>
     replace old new (c # cs) = new @ replace old new (drop (length old) (c # cs))"
  by (subst replace.simps) simp

lemma replace_skip:
  "old \<noteq> [] \<Longrightarrow> \<not> prefix old (c # cs) \<Longrightarrow> replace old new (c # cs) = c # replace old new cs"
  by (subst replace.simps) simp

lemma fence_prefix_inside:
  assumes "prefix [96, 96, 96 :: nat] (c # j @ 10 # r)"
  shows "prefix [96, 96, 96] (c # j)"
proof (cases j)
  case Nil
  with assms show ?thesis by simp
next
  case (Cons a j2)
  with assms show ?thesis by (cases j2) simp_all
qed

lemma replace_tagged_fence_absent:
  "\<not> contains [96, 96, 96] j \<Longrightarrow>
     replace [96, 96, 96, 106, 115, 111, 110] [] (j @ 10 # [96, 96, 96]) = j @ 10 # [96, 96, 96]"
proof (induction j)
  case Nil
  show ?case by (simp add: replace_skip replace_Nil)
next
  case (Cons c j)
  then have np: "\<not> prefix [96, 96, 96 :: nat] (c # j)" and nc: "\<not> contains [96, 96, 96] j"
    by simp_all
  have "\<not> prefix [96, 96, 96 :: nat] (c # j @ 10 # [96, 96, 96])"
    using np fence_prefix_inside by blast
  then have "\<not> prefix [96, 96, 96, 106, 115, 111, 110 :: nat] (c # j @ 10 # [96, 96, 96])"
    by (auto simp: prefix_def)
  then show ?case using Cons.IH [OF nc] by (simp add: replace_skip)
qed

lemma replace_closing_fence:
  "\<not> contains [96, 96, 96] j \<Longrightarrow>
     replace [96, 96, 96] [] (j @ 10 # [96, 96, 96]) = j @ [10]"
proof (induction j)
  case Nil
  show ?case by (simp add: replace_skip replace_match replace_Nil)
next
  case (Cons c j)
  then have np: "\<not> prefix [96, 96, 96 :: nat] (c # j)" and nc: "\<not> contains [96, 96, 96] j"
    by simp_all
  have "\<not> prefix [96, 96, 96 :: nat] (c # j @ 10 # [96, 96, 96])"
    using np fence_prefix_inside by blast
  then show ?case using Cons.IH [OF nc] by (simp add: replace_skip)
qed

lemma replace_fenced:
  assumes "tag = ustr ''json'' \<or> tag = []" and "\<not> contains fence j"
  shows "replace (ustr ''```'') [] (replace (ustr ''```json'') [] (fenced tag j)) = 10 # j @ [10]"
proof -
  have nc: "\<not> contains [96, 96, 96] j" using assms(2) by (simp add: fence_codes)
  have inner: "replace [96, 96, 96, 106, 115, 111, 110] [] (10 # j @ 10 # [96, 96, 96])
      = 10 # j @ 10 # [96, 96, 96]"
    using replace_tagged_fence_absent [OF nc] by (simp add: replace_skip)
  have outer: "replace [96, 96, 96] [] (10 # j @ 10 # [96, 96, 96]) = 10 # j @ [10]"
    using replace_closing_fence [OF nc] by (simp add: replace_skip)
  from assms(1) show ?thesis
  proof
    assume "tag = ustr ''json''"
    then have "replace (ustr ''```json'') [] (fenced tag j) = 10 # j @ 10 # [96, 96, 96]"
      using inner by (simp add: fenced_def fence_codes replace_match)
    then show ?thesis using outer by (simp add: fence_codes)
  next
    assume "tag = []"
    then have "replace (ustr ''```json'') [] (fenced tag j) = [96, 96, 96] @ 10 # j @ 10 # [96, 96, 96]"
      using inner by (simp add: fenced_def fence_codes replace_skip)
    then show ?thesis using outer by (simp add: fence_codes replace_match)
  qed
qed

lemma strip_leading: "isspace c \<Longrightarrow> strip (c # s) = strip s"
  by (simp add: strip_def)

lemma strip_trailing:
  assumes "isspace c"
  shows "strip (s @ [c]) = strip s"
proof (cases "\<forall>x\<in>set s. isspace x")
  case True
  then have a: "dropWhile isspace s = []"
    by (induction s) simp_all
  from True assms have b: "dropWhile isspace (s @ [c]) = []"
    by (induction s) simp_all
  show ?thesis unfolding strip_def a b by simp
next
  case False
  then obtain x where "x \<in> set s" "\<not> isspace x" by blast
  then have "dropWhile isspace (s @ [c]) = dropWhile isspace s @ [c]"
    by (rule dropWhile_append1)
  then show ?thesis using assms by (simp add: strip_def)
qed

lemma strip_fences_fenced:
  assumes "tag = ustr ''json'' \<or> tag = []" and "\<not> contains fence j"
  shows "strip_fences (fenced tag j) = strip j"
proof -
  have lf: "isspace 10" by (simp add: isspace_def)
  have "strip_fences (fenced tag j) = strip (10 # j @ [10])"
    using replace_fenced [OF assms] by (simp add: strip_fences_def)
  also have "\<dots> = strip (j @ [10])" using lf by (simp add: strip_leading)
  also have "\<dots> = strip j" using lf by (rule strip_trailing)
  finally show ?thesis .
qed

lemma lex_error_stays: "foldl lex_step (toks, Lex_error) s = (toks, Lex_error)"
  by (induction s) simp_all

lemma space_range: "isspace c \<Longrightarrow> c \<le> 32 \<or> 133 \<le> c"
  by (auto simp: isspace_def)

lemma space_facts:
  assumes "isspace c"
  shows "\<not> bare_char c" "c \<noteq> 0x22" "c \<noteq> 0x5C" "c \<noteq> 0x75" "simple_escape c = None"
    "hexval c = None"
proof -
  from assms have r: "c \<le> 32 \<or> 133 \<le> c" by (rule space_range)
  from r show "\<not> bare_char c" by (auto simp: bare_char_def is_digit_def)
  from r show "c \<noteq> 0x22" by auto
  from r show "c \<noteq> 0x5C" by auto
  from r show "c \<noteq> 0x75" by auto
  from r show "simple_escape c = None" by (auto simp: simple_escape_def)
  from r show "hexval c = None" by (auto simp: hexval_def is_digit_def)
qed

lemma json_space_between: "json_space c \<Longrightarrow> lex_between toks c = (toks, Between)"
  by (simp add: lex_between_def)

lemma space_not_json_space:
  assumes "isspace c" and "\<not> json_space c"
  shows "lex_between toks c = (toks, Lex_error)"
proof -
  from assms(1) have r: "c \<le> 32 \<or> 133 \<le> c" by (rule space_range)
  then have "c \<noteq> 0x7B" "c \<noteq> 0x7D" "c \<noteq> 0x5B" "c \<noteq> 0x5D" "c \<noteq> 0x3A" "c \<noteq> 0x2C" "c \<noteq> 0x22"
    by auto
  with assms show ?thesis by (simp add: lex_between_def space_facts)
qed

lemma tokens_leading:
  assumes "isspace c" and "tokens (c # s) = Some toks"
  shows "tokens s = Some toks"
proof (cases "json_space c")
  case True
  with assms(2) show ?thesis by (simp add: tokens_def json_space_between)
next
  case False
  with assms(1) have "tokens (c # s) = None"
    by (simp add: tokens_def space_not_json_space lex_error_stays)
  with assms(2) show ?thesis by simp
qed

lemma tokens_lstrip: "tokens s = Some toks \<Longrightarrow> tokens (dropWhile isspace s) = Some toks"
proof (induction s)
  case Nil
  then show ?case by simp
next
  case (Cons c s)
  show ?case
  proof (cases "isspace c")
    case True
    then have "tokens s = Some toks" using Cons.prems by (rule tokens_leading)
    with Cons.IH True show ?thesis by simp
  next
    case False
    with Cons.prems show ?thesis by simp
  qed
qed

lemma lex_finish_after_space:
  assumes "isspace c" and "lex_finish (lex_step (ts, m) c) = Some toks"
  shows "lex_finish (ts, m) = Some toks"
proof (cases m)
  case Between
  with assms show ?thesis
    by (cases "json_space c") (simp_all add: json_space_between space_not_json_space)
next
  case (Bare b)
  with assms show ?thesis
    by (cases "json_space c")
      (simp_all add: json_space_between space_not_json_space space_facts)
next
  case (Str s hi)
  with assms show ?thesis by (simp add: space_facts split: if_splits)
next
  case (Esc s hi)
  with assms show ?thesis by (simp add: space_facts)
next
  case (Hex s hi ds)
  with assms show ?thesis by (simp add: space_facts)
next
  case Lex_error
  with assms show ?thesis by simp
qed

lemma tokens_trailing:
  assumes "isspace c" and "tokens (s @ [c]) = Some toks"
  shows "tokens s = Some toks"
proof -
  obtain ts m where st: "foldl lex_step ([], Between) s = (ts, m)"
    by (cases "foldl lex_step ([], Between) s")
  with assms(2) have "lex_finish (lex_step (ts, m) c) = Some toks"
    by (simp add: tokens_def)
  with assms(1) have "lex_finish (ts, m) = Some toks"
    by (rule lex_finish_after_space)
  with st show ?thesis by (simp add: tokens_def)
qed

lemma tokens_rstrip:
  "tokens s = Some toks \<Longrightarrow> tokens (rev (dropWhile isspace (rev s))) = Some toks"
proof (induction s rule: rev_induct)
  case Nil
  then show ?case by simp
next
  case (snoc c s)
  show ?case
  proof (cases "isspace c")
    case True
    then have "tokens s = Some toks" using snoc.prems by (rule tokens_trailing)
    with snoc.IH True show ?thesis by simp
  next
    case False
    with snoc.prems show ?thesis by simp
  qed
qed

lemma tokens_strip: "tokens s = Some toks \<Longrightarrow> tokens (strip s) = Some toks"
  unfolding strip_def by (intro tokens_rstrip tokens_lstrip)

lemma json_loads_strip:
  assumes "json_loads s = Inr v"
  shows "json_loads (strip s) = Inr v"
proof (cases "tokens s")
  case None
  with assms show ?thesis by (simp add: json_loads_def)
next
  case (Some toks)
  then have "tokens (strip s) = Some toks" by (rule tokens_strip)
  with Some assms show ?thesis by (simp add: json_loads_def)
qed

lemma loads_backticks:
  "json_loads backticks_json
     = Inr (JObject [(ustr ''balti'', JString (ustr ''```'')),
                     (ustr ''english'', JString (ustr ''code''))])"
  by code_simp

lemma loads_fenced_backticks:
  "json_loads (strip_fences (fenced (ustr ''json'') backticks_json))
     = Inr (JObject [(ustr ''balti'', JString []), (ustr ''english'', JString (ustr ''code''))])"
  by code_simp

lemma two_fields_no_fence: "\<not> contains fence two_fields"
  by code_simp

lemma loads_two_fields:
  "json_loads two_fields
     = Inr (JObject [(ustr ''balti'', JString (ustr ''kho'')),
                     (ustr ''english'', JString (ustr ''this''))])"
  by code_simp

text \<open>
  C9, as the specification states it, fails: \<^verbatim>\<open>replace\<close> removes every fence marker in
  the reply, also one inside the payload. The payload below is valid JSON with the two string
  fields; fenced, it comes back with the field \<^verbatim>\<open>balti\<close> emptied.
\<close>

theorem fenced_backticks_are_lost:
  "json_loads backticks_json
     = Inr (JObject [(ustr ''balti'', JString (ustr ''```'')),
                     (ustr ''english'', JString (ustr ''code''))]) \<and>
   fst (translate configured [0::nat] 16000 default_config
          (replies (fenced (ustr ''json'') backticks_json)) idle_world)
     = Inr (JObject [(ustr ''balti'', JString []), (ustr ''english'', JString (ustr ''code''))]) \<and>
   fst (translate configured [0::nat] 16000 default_config
          (replies (fenced (ustr ''json'') backticks_json)) idle_world)
     \<noteq> json_loads backticks_json"
proof -
  have "fst (translate configured [0::nat] 16000 default_config
          (replies (fenced (ustr ''json'') backticks_json)) idle_world)
     = Inr (JObject [(ustr ''balti'', JString []), (ustr ''english'', JString (ustr ''code''))])"
    by (simp add: translate_def translate_body_def configured_def replies_def prompt_default
        loads_fenced_backticks Let_def)
  moreover have "ustr ''```'' \<noteq> []"
    by (simp add: ustr_def)
  ultimately show ?thesis
    by (simp add: loads_backticks)
qed

text \<open>
  C9, amended. When the reply is valid JSON in a code fence and the JSON text itself contains
  no fence marker, \<open>translate\<close> returns what parsing the JSON text directly gives.
\<close>

theorem translate_fenced_reply:
  assumes "model self \<noteq> None"
    and "wav_write x = None" and "upload_file x = None" and "prompt cfg = Inr p"
    and "generate_content x = Inr (Response (Inr (fenced tag j)))"
    and "tag = ustr ''json'' \<or> tag = []"
    and "\<not> contains fence j"
    and "json_loads j = Inr v"
  shows "fst (translate self audio rate cfg x w) = json_loads j"
proof -
  have "strip_fences (fenced tag j) = strip j"
    using assms(6,7) by (rule strip_fences_fenced)
  moreover have "json_loads (strip j) = Inr v"
    using assms(8) by (rule json_loads_strip)
  ultimately have "fst (translate_body audio rate cfg x w) = Inr v"
    using assms(2-5) by (simp add: translate_body_reply)
  with assms(1,8) show ?thesis
    by (auto simp: translate_def split: prod.split sum.split)
qed

theorem translate_fenced_reply_witness:
  "model configured \<noteq> None \<and>
   generate_content (replies (fenced (ustr ''json'') two_fields))
     = Inr (Response (Inr (fenced (ustr ''json'') two_fields))) \<and>
   \<not> contains fence two_fields \<and>
   fst (translate configured [0::nat] 16000 default_config
          (replies (fenced (ustr ''json'') two_fields)) idle_world)
     = Inr (JObject [(ustr ''balti'', JString (ustr ''kho'')),
                     (ustr ''english'', JString (ustr ''this''))])"
  using translate_fenced_reply [of configured "replies (fenced (ustr ''json'') two_fields)"
      default_config "prompt_head default_config @ prompt_tail" "ustr ''json''" two_fields
      "JObject [(ustr ''balti'', JString (ustr ''kho'')),
                (ustr ''english'', JString (ustr ''this''))]" "[0::nat]" 16000 idle_world]
  by (simp add: configured_def replies_def prompt_default two_fields_no_fence loads_two_fields)

section \<open>Properties of the prompt\<close>

lemma split_lines_line: "10 \<notin> set x \<Longrightarrow> split_lines (x @ 10 # r) = x # split_lines r"
  by (induction x) simp_all

lemma split_lines_single: "10 \<notin> set x \<Longrightarrow> split_lines x = [x]"
  by (induction x) simp_all

lemma split_lines_join:
  "ls \<noteq> [] \<Longrightarrow> \<forall>l\<in>set ls. 10 \<notin> set l \<Longrightarrow> split_lines (join [10] ls) = ls"
proof (induction "[10::nat]" ls rule: join.induct)
  case 1
  then show ?case by simp
next
  case (2 x)
  then show ?case by (simp add: split_lines_single)
next
  case (3 x y ys)
  then show ?case by (simp add: split_lines_line)
qed

lemma formatted_single_line:
  assumes "single_line d"
  shows "entry_line d = Inr (formatted d)" and "10 \<notin> set (formatted d)"
  using assms
  by (auto simp: single_line_def entry_line_def formatted_def ustr_def split: option.splits)

lemma entry_lines_formatted:
  "list_all single_line ds \<Longrightarrow> entry_lines ds = Inr (map formatted ds)"
  by (induction ds) (simp_all add: formatted_single_line)

text \<open>
  C7, as the specification states it, fails: one entry whose source term contains a line feed
  is rendered as two lines, neither of which has the form of an entry.
\<close>

theorem entry_with_line_feed_spans_two_lines:
  "prompt newline_entry
     = Inr (prompt_head newline_entry @ ustr ''- a\<newline>b -> c'' @ prompt_tail) \<and>
   split_lines (ustr ''- a\<newline>b -> c'') = [ustr ''- a'', ustr ''b -> c'']"
  by (simp add: prompt_def dict_str_def entry_line_def newline_entry_def ustr_def)

text \<open>
  C7, amended. For a configuration whose entries all have both terms, with no line feed in
  them, the built text is the fixed head, the dictionary section and the fixed tail; the section
  is empty when the dictionary is empty or absent, and otherwise its lines are exactly the
  entries, in their order, each rendered \<^verbatim>\<open>- {source} -> {target}\<close>.
\<close>

theorem dictionary_section_lines:
  assumes "get_dictionary cfg = Some ds \<or> (get_dictionary cfg = None \<and> ds = [])"
    and "list_all single_line ds"
  shows "\<exists>D. prompt cfg = Inr (prompt_head cfg @ D @ prompt_tail) \<and>
           (ds = [] \<longrightarrow> D = []) \<and>
           (ds \<noteq> [] \<longrightarrow> split_lines D = map formatted ds)"
proof -
  have el: "entry_lines ds = Inr (map formatted ds)"
    using assms(2) by (rule entry_lines_formatted)
  have "dict_str cfg = Inr (join [10] (map formatted ds))"
    using assms(1) el by (auto simp: dict_str_def ustr_def)
  then have p: "prompt cfg = Inr (prompt_head cfg @ join [10] (map formatted ds) @ prompt_tail)"
    by (simp add: prompt_def)
  have "\<forall>l\<in>set (map formatted ds). 10 \<notin> set l"
    using assms(2) by (auto simp: list_all_iff formatted_single_line)
  then have "ds \<noteq> [] \<longrightarrow> split_lines (join [10] (map formatted ds)) = map formatted ds"
    by (simp add: split_lines_join)
  moreover have "ds = [] \<longrightarrow> join [10] (map formatted ds) = []"
    by simp
  ultimately show ?thesis using p by blast
qed

theorem dictionary_section_lines_witness:
  "get_dictionary two_entries
     = Some [[ustr ''balti'' \<mapsto> ustr ''kho'', ustr ''english'' \<mapsto> ustr ''this''],
             [ustr ''balti'' \<mapsto> ustr ''chu'', ustr ''english'' \<mapsto> ustr ''water'']] \<and>
   list_all single_line
     [[ustr ''balti'' \<mapsto> ustr ''kho'', ustr ''english'' \<mapsto> ustr ''this''],
      [ustr ''balti'' \<mapsto> ustr ''chu'', ustr ''english'' \<mapsto> ustr ''water'']] \<and>
   (\<exists>D. prompt two_entries = Inr (prompt_head two_entries @ D @ prompt_tail) \<and>
        split_lines D = [ustr ''- kho -> this'', ustr ''- chu -> water''])"
  using dictionary_section_lines [of two_entries
      "[[ustr ''balti'' \<mapsto> ustr ''kho'', ustr ''english'' \<mapsto> ustr ''this''],
        [ustr ''balti'' \<mapsto> ustr ''chu'', ustr ''english'' \<mapsto> ustr ''water'']]"]
  by (simp add: two_entries_def single_line_def formatted_def ustr_def)

section \<open>Properties of the record endpoint\<close>

lemma ustr_start_stop: "ustr ''start'' \<noteq> ustr ''stop''"
  by (simp add: ustr_def)




text \<open>
  C5. When the action is \<^verbatim>\<open>stop\<close> and the sample that \<open>stop\<close> returns has length zero,
  the endpoint answers with the "No audio captured" result, and the world is exactly as \<open>stop\<close>
  left it: \<open>translate\<close> made none of its calls.
\<close>

theorem empty_capture_skips_model:
  assumes "data (ustr ''action'') = Some (JString (ustr ''stop''))"
    and "length (fst (stop (recorder a, w))) = 0"
  shows "fst (handle_record data dev x (a, w)) = Inr (Some (error_result ''No audio captured'')) \<and>
         snd (snd (handle_record data dev x (a, w))) = snd (snd (stop (recorder a, w))) \<and>
         calls_of_translate (snd (snd (handle_record data dev x (a, w)))) = calls_of_translate w"
  using assms
  by (auto simp: handle_record_def stop_def Let_def ustr_start_stop [symmetric]
      calls_of_translate_def emit_def print_def split: option.split)

theorem empty_capture_skips_model_witness:
  "stop_request (ustr ''action'') = Some (JString (ustr ''stop'')) \<and>
   length (fst (stop (recorder fresh_app, idle_world))) = 0 \<and>
   fst (handle_record stop_request Device_ok (replies only_balti) (fresh_app, idle_world))
     = Inr (Some (error_result ''No audio captured'')) \<and>
   calls_of_translate (snd (snd (handle_record stop_request Device_ok (replies only_balti)
       (fresh_app, idle_world)))) = []"
  using empty_capture_skips_model [of stop_request fresh_app idle_world Device_ok
      "replies only_balti"]
  by (simp add: stop_request_def fresh_app_def AudioRecorder_init_def stop_def Let_def
      calls_of_translate_def idle_world_def)

text \<open>
  C10. When the action of the request is neither \<^verbatim>\<open>start\<close> nor \<^verbatim>\<open>stop\<close> (or the body has
  no action), the view touches nothing and returns no value at all.
\<close>

theorem unknown_action_returns_nothing:
  assumes "data (ustr ''action'') \<noteq> Some (JString (ustr ''start''))"
    and "data (ustr ''action'') \<noteq> Some (JString (ustr ''stop''))"
  shows "handle_record data dev x (a, w) = (Inr None, a, w)"
  using assms by (simp add: handle_record_def Let_def)

theorem unknown_action_returns_nothing_witness:
  "Map.empty (ustr ''action'') \<noteq> Some (JString (ustr ''start'')) \<and>
   Map.empty (ustr ''action'') \<noteq> Some (JString (ustr ''stop'')) \<and>
   handle_record Map.empty Device_ok (replies only_balti) (fresh_app, idle_world)
     = (Inr None, fresh_app, idle_world)"
  using unknown_action_returns_nothing [of Map.empty Device_ok "replies only_balti"
      fresh_app idle_world]
  by simp

end
